theory Spec2Isabelle
  imports Main "HOL-Library.Char_ord" "HOL-Library.List_Lexorder" "HOL-Library.Product_Lexorder"
    "HOL-Library.AList" "HOL-Library.Multiset"
begin

section \<open>Values and errors\<close>

text \<open>
  Object identifiers are Python integers or byte strings. Python 2 orders every number
  before every string; \<open>oid_key\<close> maps an identifier to a key with that order.
\<close>

datatype oid = OInt int | OStr string

datatype error = ValueError string | TypeError string | KeyError string | RuntimeError string
  | IndexError string

fun oid_key :: "oid \<Rightarrow> nat \<times> int \<times> string" where
  "oid_key (OInt i) = (0, i, [])"
| "oid_key (OStr s) = (1, 0, s)"

fun truthy_oid :: "oid \<Rightarrow> bool" where
  "truthy_oid (OInt i) = (i \<noteq> 0)"
| "truthy_oid (OStr s) = (s \<noteq> [])"

text \<open>\<open>sorted(set(oids))\<close>: duplicates dropped, ascending.\<close>

definition sorted_set :: "oid list \<Rightarrow> oid list" where
  "sorted_set xs = sort_key oid_key (remdups xs)"

text \<open>\<open>sep.join(xs)\<close> and \<open>'%s' % x\<close> for a string that may be \<open>None\<close>.\<close>

fun join :: "string \<Rightarrow> string list \<Rightarrow> string" where
  "join sep [] = []"
| "join sep [x] = x"
| "join sep (x # y # ys) = x @ sep @ join sep (y # ys)"

fun pct_s :: "string option \<Rightarrow> string" where
  "pct_s None = ''None''"
| "pct_s (Some s) = s"

text \<open>Decimal text of a Python int, as \<open>str\<close> and \<open>'%s'\<close> give it.\<close>

fun digits10 :: "nat \<Rightarrow> string" where
  "digits10 n = (if n < 10 then [''0123456789'' ! n]
                 else digits10 (n div 10) @ [''0123456789'' ! (n mod 10)])"

declare digits10.simps [simp del]

definition str_int :: "int \<Rightarrow> string" where
  "str_int i = (if i < 0 then CHR ''-'' # digits10 (nat (- i)) else digits10 (nat i))"

fun str_oid :: "oid \<Rightarrow> string" where
  "str_oid (OInt i) = str_int i"
| "str_oid (OStr s) = s"

section \<open>Oid diff (generic.py)\<close>

text \<open>
  The \<open>force\<close> argument of \<open>_delta_force\<close>: \<open>None\<close>, a bool, a list (tuple, set) of
  oids, or any other value, here a single oid.
\<close>

datatype force = FNone | FBool bool | FList "oid list" | FScalar oid

fun truthy_force :: "force \<Rightarrow> bool" where
  "truthy_force FNone = False"
| "truthy_force (FBool b) = b"
| "truthy_force (FList xs) = (xs \<noteq> [])"
| "truthy_force (FScalar v) = truthy_oid v"

text \<open>Python's \<open>a or b\<close>.\<close>

definition force_or :: "force \<Rightarrow> force \<Rightarrow> force" where
  "force_or a b = (if truthy_force a then a else b)"

text \<open>The \<open>delta_mtime\<close> setting is one column name or a list of them.\<close>

datatype mtime_cols = MCol string | MCols "string list"

fun truthy_cols :: "mtime_cols \<Rightarrow> bool" where
  "truthy_cols (MCol s) = (s \<noteq> [])"
| "truthy_cols (MCols cs) = (cs \<noteq> [])"

record config =
  cfg_db :: "string option"
  cfg_table :: "string option"
  cfg_oid :: "string option"
  cfg_force :: force
  cfg_delta_new_ids :: "bool option"
  cfg_delta_mtime :: "mtime_cols option"
  cfg_cfield :: "string option"
  cfg_retries :: "nat option"

text \<open>
  What the cube reads from outside this module: the SQL engine (\<open>load_sql\<close> gives the
  oid column of the rows a query returns), \<open>get_last_field('_oid')\<close> of the client
  (\<open>last_oid\<close>), Python's \<open>'%s' % float(x)\<close> (\<open>float_str\<close>, \<open>None\<close> when \<open>float\<close>
  raises \<open>TypeError\<close> or \<open>ValueError\<close>), and the literal that \<open>_fetch_mtime\<close> renders
  from a datetime (\<open>fetched_mtime\<close>).
\<close>

record source =
  load_sql :: "string \<Rightarrow> oid list"
  last_oid :: "oid option"
  float_str :: "oid \<Rightarrow> string option"
  fetched_mtime :: "string option"

datatype where_arg = WNone | WStr string | WList "string list"

fun truthy_where :: "where_arg \<Rightarrow> bool" where
  "truthy_where WNone = False"
| "truthy_where (WStr s) = (s \<noteq> [])"
| "truthy_where (WList ws) = (ws \<noteq> [])"

fun where_list :: "where_arg \<Rightarrow> string list" where
  "where_list WNone = []"
| "where_list (WStr s) = [s]"
| "where_list (WList ws) = ws"

definition sql_get_oids :: "config \<Rightarrow> source \<Rightarrow> where_arg \<Rightarrow> oid list" where
  "sql_get_oids cfg src wh =
     (let sql = ''SELECT DISTINCT '' @ pct_s (cfg_table cfg) @ ''.'' @ pct_s (cfg_oid cfg)
                @ '' FROM '' @ pct_s (cfg_db cfg) @ ''.'' @ pct_s (cfg_table cfg);
          sql' = (if truthy_where wh then sql @ '' WHERE '' @ join '' OR '' (where_list wh)
                  else sql)
      in sort_key oid_key (load_sql src sql'))"

definition get_new_oids :: "config \<Rightarrow> source \<Rightarrow> oid list" where
  "get_new_oids cfg src =
     (case last_oid src of
        None \<Rightarrow> []
      | Some last_id \<Rightarrow>
          if \<not> truthy_oid last_id then []
          else
            (let lhs = pct_s (cfg_table cfg) @ ''.'' @ pct_s (cfg_oid cfg) @ '' > '';
                 wh = (case float_str src last_id of
                         Some f \<Rightarrow> lhs @ f
                       | None \<Rightarrow> lhs @ [CHR 39] @ str_oid last_id @ [CHR 39])
             in sql_get_oids cfg src (WStr wh)))"

definition get_changed_oids :: "config \<Rightarrow> source \<Rightarrow> oid list" where
  "get_changed_oids cfg src =
     (case (cfg_delta_mtime cfg, fetched_mtime src) of
        (Some cols, Some mtime) \<Rightarrow>
          if \<not> (truthy_cols cols \<and> mtime \<noteq> []) then []
          else
            (let mtime_columns = (case cols of MCol c \<Rightarrow> [c] | MCols cs \<Rightarrow> cs)
             in sql_get_oids cfg src (WList (map (\<lambda>c. c @ '' > '' @ mtime) mtime_columns)))
      | _ \<Rightarrow> [])"

definition delta_force :: "config \<Rightarrow> source \<Rightarrow> force \<Rightarrow> oid list" where
  "delta_force cfg src force0 =
     (let force = force_or (force_or force0 (cfg_force cfg)) (FBool False);
          oids =
            (if force = FBool True then sql_get_oids cfg src WNone
             else if \<not> truthy_force force then
               (if (case cfg_delta_new_ids cfg of None \<Rightarrow> True | Some b \<Rightarrow> b)
                then get_new_oids cfg src else [])
               @ (if (case cfg_delta_mtime cfg of None \<Rightarrow> False | Some c \<Rightarrow> truthy_cols c)
                  then get_changed_oids cfg src else [])
             else (case force of
                     FList xs \<Rightarrow> xs
                   | _ \<Rightarrow> []))
      in sorted_set oids)"

section \<open>SQL builder (generic.py)\<close>

text \<open>\<open>re.sub('\s+', ' ', s)\<close>: every run of white space becomes one blank.\<close>

definition is_space :: "char \<Rightarrow> bool" where
  "is_space c = (c \<in> set [CHR '' '', CHR 9, CHR 10, CHR 11, CHR 12, CHR 13])"

fun collapse :: "bool \<Rightarrow> string \<Rightarrow> string" where
  "collapse prev [] = []"
| "collapse prev (c # cs) =
     (if is_space c then (if prev then collapse True cs else CHR '' '' # collapse True cs)
      else c # collapse False cs)"

definition re_sub_ws :: "string \<Rightarrow> string" where
  "re_sub_ws s = collapse False s"

text \<open>
  Field values. A row holds \<open>None\<close>, integers and text, a list of them, or a \<open>buffer\<close>
  as the SQL driver delivers aggregated text. Text is ASCII here, so that \<open>str\<close> and
  \<open>unicode\<close> hold the same characters and compare equal, as Python 2 has it; floats,
  dates and text outside ASCII are not part of this model.
\<close>

datatype scalar = SNone | SInt int | SStr string

datatype "value" = VOne scalar | VList "scalar list"

datatype raw = RBuf string | RVal "value"

datatype type_tag = TInt | TStr

record field_opts =
  f_select :: "string option"
  f_sql :: "string option"
  f_convert :: "(scalar \<Rightarrow> error + scalar) option"
  f_container :: bool
  f_type :: "type_tag option"

type_synonym fields = "(string \<times> field_opts) list"

fun truthy_str :: "string option \<Rightarrow> bool" where
  "truthy_str None = False"
| "truthy_str (Some s) = (s \<noteq> [])"

definition select_of :: "string \<Rightarrow> string \<times> field_opts \<Rightarrow> string" where
  "select_of table fo =
     (case fo of (as_field, opts) \<Rightarrow>
        (if truthy_str (f_select opts) then the (f_select opts) else table @ ''.'' @ as_field)
        @ '' as '' @ as_field)"

definition stmt_of :: "string \<times> field_opts \<Rightarrow> string" where
  "stmt_of fo = re_sub_ws (if truthy_str (f_sql (snd fo)) then the (f_sql (snd fo)) else [])"

definition generate_sql :: "config \<Rightarrow> fields \<Rightarrow> oid list \<Rightarrow> bool \<Rightarrow> error + string" where
  "generate_sql cfg flds oids sort_flag =
     (if \<not> (truthy_str (cfg_oid cfg) \<and> truthy_str (cfg_table cfg) \<and> truthy_str (cfg_db cfg))
      then Inl (ValueError ''Must define db, table, _oid in config!'')
      else
        (let db = the (cfg_db cfg); oidc = the (cfg_oid cfg); table = the (cfg_table cfg);
             selects = join '', '' (map (select_of table) flds);
             stmts = join '' '' (filter (\<lambda>q. q \<noteq> []) (map stmt_of flds));
             sql = ''SELECT '' @ selects @ '' FROM '' @ db @ ''.'' @ table @ '' '' @ stmts;
             sql1 = (if oids \<noteq> []
                     then sql @ '' WHERE '' @ table @ ''.'' @ oidc @ '' in (''
                          @ join '','' (map str_oid oids) @ '')''
                     else sql);
             sql2 = (if sort_flag
                     then sql1 @ '' ORDER BY '' @ table @ ''.'' @ oidc @ '' ASC''
                     else sql1)
         in Inr (re_sub_ws sql2)))"

section \<open>Normalizer (generic.py)\<close>

text \<open>White space that \<open>unicode.strip()\<close> removes, within ASCII.\<close>

definition is_uspace :: "char \<Rightarrow> bool" where
  "is_uspace c = (is_space c \<or> c \<in> set [CHR 28, CHR 29, CHR 30, CHR 31])"

definition strip :: "(char \<Rightarrow> bool) \<Rightarrow> string \<Rightarrow> string" where
  "strip sp s = rev (dropWhile sp (rev (dropWhile sp s)))"

fun split_on :: "char \<Rightarrow> string \<Rightarrow> string list" where
  "split_on c [] = [ [] ]"
| "split_on c (x # xs) =
     (if x = c then [] # split_on c xs
      else (case split_on c xs of
              [] \<Rightarrow> [ [x] ]
            | w # ws \<Rightarrow> (x # w) # ws))"

fun unwrap :: "raw \<Rightarrow> value" where
  "unwrap (RVal v) = v"
| "unwrap (RBuf b) =
     (let t = strip is_uspace (filter (\<lambda>c. c \<noteq> CHR 34) b)
      in if t = [] then VOne SNone else VList (map SStr (split_on (CHR 10) t)))"

fun truthy_scalar :: "scalar \<Rightarrow> bool" where
  "truthy_scalar SNone = False"
| "truthy_scalar (SInt i) = (i \<noteq> 0)"
| "truthy_scalar (SStr s) = (s \<noteq> [])"

fun normalize_container :: "field_opts \<Rightarrow> value \<Rightarrow> error + value" where
  "normalize_container opts (VOne s) =
     (if f_container opts then Inr (if truthy_scalar s then VList [s] else VOne SNone)
      else Inr (VOne s))"
| "normalize_container opts (VList xs) =
     (if f_container opts then Inr (VList xs)
      else Inl (ValueError ''Expected single value, got list''))"

text \<open>Apply a function that may raise to each element, stopping at the first error.\<close>

fun map_err :: "('a \<Rightarrow> error + 'b) \<Rightarrow> 'a list \<Rightarrow> error + 'b list" where
  "map_err f [] = Inr []"
| "map_err f (x # xs) =
     (case f x of
        Inl e \<Rightarrow> Inl e
      | Inr y \<Rightarrow> (case map_err f xs of Inl e \<Rightarrow> Inl e | Inr ys \<Rightarrow> Inr (y # ys)))"

text \<open>
  \<open>_convert\<close>. After \<open>_normalize_container\<close> a container field holds a list or \<open>None\<close>
  and any other field holds no list; the two remaining combinations are not reached and
  are given as \<open>TypeError\<close>.
\<close>

fun convert_value :: "field_opts \<Rightarrow> value \<Rightarrow> error + value" where
  "convert_value opts (VOne SNone) = Inr (VOne SNone)"
| "convert_value opts (VOne s) =
     (case f_convert opts of
        None \<Rightarrow> Inr (VOne s)
      | Some c \<Rightarrow>
          if f_container opts then Inl (TypeError ''container value is not a list'')
          else (case c s of Inl e \<Rightarrow> Inl e | Inr r \<Rightarrow> Inr (VOne r)))"
| "convert_value opts (VList xs) =
     (case f_convert opts of
        None \<Rightarrow> Inr (VList xs)
      | Some c \<Rightarrow>
          if f_container opts
          then (case map_err c xs of Inl e \<Rightarrow> Inl e | Inr ys \<Rightarrow> Inr (VList ys))
          else Inl (TypeError ''single value is a list''))"

text \<open>\<open>int(s)\<close> on text: white space around, an optional sign, decimal digits.\<close>

definition is_digit :: "char \<Rightarrow> bool" where
  "is_digit c = (CHR ''0'' \<le> c \<and> c \<le> CHR ''9'')"

definition digit_val :: "char \<Rightarrow> nat" where
  "digit_val c = of_char c - 48"

definition nat_of_digits :: "string \<Rightarrow> nat" where
  "nat_of_digits ds = foldl (\<lambda>acc c. 10 * acc + digit_val c) 0 ds"

definition unsigned_of :: "string \<Rightarrow> error + int" where
  "unsigned_of ds =
     (if ds \<noteq> [] \<and> list_all is_digit ds then Inr (int (nat_of_digits ds))
      else Inl (ValueError ''invalid literal for int() with base 10''))"

definition int_of_str :: "string \<Rightarrow> error + int" where
  "int_of_str s =
     (case strip is_space s of
        [] \<Rightarrow> Inl (ValueError ''invalid literal for int() with base 10'')
      | c # cs \<Rightarrow>
          if c = CHR ''-'' then (case unsigned_of cs of Inl e \<Rightarrow> Inl e | Inr n \<Rightarrow> Inr (- n))
          else if c = CHR ''+'' then unsigned_of cs
          else unsigned_of (c # cs))"

fun isinstance :: "scalar \<Rightarrow> type_tag \<Rightarrow> bool" where
  "isinstance (SInt i) TInt = True"
| "isinstance (SStr s) TStr = True"
| "isinstance v T = False"

text \<open>\<open>_type(value)\<close> for a value that is not \<open>None\<close>.\<close>

fun construct :: "type_tag \<Rightarrow> scalar \<Rightarrow> error + scalar" where
  "construct TInt (SInt i) = Inr (SInt i)"
| "construct TInt (SStr s) = (case int_of_str s of Inl e \<Rightarrow> Inl e | Inr i \<Rightarrow> Inr (SInt i))"
| "construct TStr (SInt i) = Inr (SStr (str_int i))"
| "construct TStr (SStr s) = Inr (SStr s)"
| "construct T SNone = Inl (TypeError ''argument is None'')"

text \<open>
  \<open>_type_single\<close>. Re-coding text between \<open>str\<close> and \<open>unicode\<close> (\<open>encode('utf8')\<close>,
  \<open>unicode(v, 'utf8')\<close>) keeps ASCII characters as they are.
\<close>

definition type_single :: "scalar \<Rightarrow> type_tag option \<Rightarrow> error + scalar" where
  "type_single v ty =
     (if v = SNone then Inr SNone
      else if v = SStr [] then Inr SNone
      else (case ty of
              None \<Rightarrow> (case v of SInt i \<Rightarrow> Inr (SStr (str_int i)) | _ \<Rightarrow> Inr v)
            | Some T \<Rightarrow> if isinstance v T then Inr v else construct T v))"

text \<open>Python 2 sorts \<open>None\<close> first, then numbers, then text.\<close>

fun scalar_key :: "scalar \<Rightarrow> nat \<times> int \<times> string" where
  "scalar_key SNone = (0, 0, [])"
| "scalar_key (SInt i) = (1, i, [])"
| "scalar_key (SStr s) = (2, 0, s)"

fun type_container :: "value \<Rightarrow> type_tag option \<Rightarrow> error + value" where
  "type_container (VOne SNone) ty = Inr (VList [])"
| "type_container (VOne s) ty = Inl (ValueError ''expected list type'')"
| "type_container (VList xs) ty =
     (case map_err (\<lambda>item. type_single item ty) xs of
        Inl e \<Rightarrow> Inl e
      | Inr ys \<Rightarrow> Inr (VList (sort_key scalar_key ys)))"

fun typecast :: "field_opts \<Rightarrow> value \<Rightarrow> error + value" where
  "typecast opts v =
     (if f_container opts then type_container v (f_type opts)
      else (case v of
              VOne s \<Rightarrow> (case type_single s (f_type opts) of
                           Inl e \<Rightarrow> Inl e | Inr r \<Rightarrow> Inr (VOne r))
            | VList xs \<Rightarrow> Inl (TypeError ''single value is a list'')))"

text \<open>The per-field pipeline of \<open>_prep_objects\<close>; \<open>self.fields[field]\<close> may raise.\<close>

definition prep_field :: "fields \<Rightarrow> string \<Rightarrow> raw \<Rightarrow> error + value" where
  "prep_field flds field v =
     (case map_of flds field of
        None \<Rightarrow> Inl (KeyError field)
      | Some opts \<Rightarrow>
          (case normalize_container opts (unwrap v) of
             Inl e \<Rightarrow> Inl e
           | Inr v1 \<Rightarrow>
               (case convert_value opts v1 of
                  Inl e \<Rightarrow> Inl e
                | Inr v2 \<Rightarrow> typecast opts v2)))"

definition prep_row :: "fields \<Rightarrow> (string \<times> raw) list \<Rightarrow> error + (string \<times> value) list" where
  "prep_row flds row =
     map_err (\<lambda>kv. case prep_field flds (fst kv) (snd kv) of
                      Inl e \<Rightarrow> Inl e | Inr v \<Rightarrow> Inr (fst kv, v)) row"

definition prep_objects ::
  "fields \<Rightarrow> (string \<times> raw) list list \<Rightarrow> error + (string \<times> value) list list" where
  "prep_objects flds rows = map_err (prep_row flds) rows"

text \<open>A normalized object read as a raw row again.\<close>

definition as_raw :: "(string \<times> value) list \<Rightarrow> (string \<times> raw) list" where
  "as_raw obj = map (\<lambda>kv. (fst kv, RVal (snd kv))) obj"

section \<open>Batch fetch (generic.py)\<close>

text \<open>
  The retry loop of \<open>_get_objects\<close>. \<open>load n\<close> is what the \<open>n\<close>-th call of \<open>_load_sql\<close>
  gives; the second component counts the calls made.
\<close>

fun fetch :: "(nat \<Rightarrow> error + 'a) \<Rightarrow> nat \<Rightarrow> nat \<Rightarrow> (error + 'a) \<times> nat" where
  "fetch load 0 n = (Inl (RuntimeError ''Failed to fetch any objects''), n)"
| "fetch load (Suc r) n =
     (case load n of
        Inr objs \<Rightarrow> (Inr objs, Suc n)
      | Inl e \<Rightarrow> if Suc r \<le> 1 then (Inl e, Suc n) else fetch load r (Suc n))"

text \<open>\<open>o.update({'_oid': o[_oid]})\<close>.\<close>

definition set_oid :: "string \<Rightarrow> (string \<times> value) list \<Rightarrow> error + (string \<times> value) list" where
  "set_oid oidc obj =
     (case map_of obj oidc of
        None \<Rightarrow> Inl (KeyError oidc)
      | Some v \<Rightarrow> Inr (AList.update ''_oid'' v obj))"

definition get_objects ::
  "config \<Rightarrow> fields \<Rightarrow> (string \<Rightarrow> nat \<Rightarrow> error + (string \<times> raw) list list) \<Rightarrow> oid list
   \<Rightarrow> (error + (string \<times> value) list list) \<times> nat" where
  "get_objects cfg flds load_rows oids =
     (let retries = (case cfg_retries cfg of None \<Rightarrow> 1 | Some r \<Rightarrow> if r = 0 then 1 else r)
      in case generate_sql cfg flds oids True of
           Inl e \<Rightarrow> (Inl e, 0)
         | Inr sql \<Rightarrow>
             (case fetch (load_rows sql) retries 0 of
                (Inl e, n) \<Rightarrow> (Inl e, n)
              | (Inr rows, n) \<Rightarrow>
                  (case prep_objects flds rows of
                     Inl e \<Rightarrow> (Inl e, n)
                   | Inr objs \<Rightarrow> (map_err (set_oid (pct_s (cfg_oid cfg))) objs, n))))"

section \<open>Activity replay (generic.py)\<close>

text \<open>
  A version is a dict of fields (\<open>_oid\<close>, \<open>_start\<close>, \<open>_end\<close> among them) and, once an
  inconsistency was met, a dict \<open>_corrupted\<close>, kept apart here. An activity is a tuple
  \<open>(when, field, removed, added)\<close>; \<open>when\<close> is a time stamp.
\<close>

record doc =
  d_fields :: "(string \<times> value) list"
  d_corrupted :: "(string \<times> value) list option"

type_synonym activity = "int \<times> string \<times> value \<times> value"

record inconsistency =
  i_oid :: "value"
  i_field :: string
  i_removed :: "value"
  i_added :: "value"
  i_last_val :: "value"
  i_when :: int

text \<open>Python 2 order on values: \<open>None\<close>, numbers, lists, text.\<close>

fun value_key :: "value \<Rightarrow> nat \<times> int \<times> string \<times> (nat \<times> int \<times> string) list" where
  "value_key (VOne SNone) = (0, 0, [], [])"
| "value_key (VOne (SInt i)) = (1, i, [], [])"
| "value_key (VList xs) = (2, 0, [], map scalar_key xs)"
| "value_key (VOne (SStr s)) = (3, 0, s, [])"

definition set_field :: "string \<Rightarrow> value \<Rightarrow> doc \<Rightarrow> doc" where
  "set_field k v d = d\<lparr>d_fields := AList.update k v (d_fields d)\<rparr>"

definition get_field :: "doc \<Rightarrow> string \<Rightarrow> error + value" where
  "get_field d k = (case map_of (d_fields d) k of None \<Rightarrow> Inl (KeyError k) | Some v \<Rightarrow> Inr v)"

text \<open>The loop of \<open>_activity_backwards\<close> over \<open>added\<close>.\<close>

fun remove_added :: "scalar list \<Rightarrow> bool \<Rightarrow> scalar list \<Rightarrow> scalar list \<times> bool" where
  "remove_added val inconsistent [] = (val, inconsistent)"
| "remove_added val inconsistent (ad # ads) =
     (if ad \<in> set val then remove_added (remove1 ad val) inconsistent ads
      else remove_added val True ads)"

text \<open>
  \<open>_activity_backwards\<close>. With \<open>added\<close> and \<open>removed\<close> lists, a value that is neither a list
  nor \<open>None\<close> has no \<open>remove\<close> and no \<open>extend\<close>: Python raises.
\<close>

fun activity_backwards :: "value \<Rightarrow> value \<Rightarrow> value \<Rightarrow> error + value \<times> bool" where
  "activity_backwards val (VList removed) (VList added) =
     (case val of
        VOne SNone \<Rightarrow> (case remove_added [] False added of (v, inc) \<Rightarrow> Inr (VList (v @ removed), inc))
      | VList xs \<Rightarrow> (case remove_added xs False added of (v, inc) \<Rightarrow> Inr (VList (v @ removed), inc))
      | VOne s \<Rightarrow> Inl (TypeError ''value is not a list''))"
| "activity_backwards val removed added = Inr (removed, val \<noteq> added)"

definition log_entry :: "doc \<Rightarrow> value \<Rightarrow> activity \<Rightarrow> error + inconsistency" where
  "log_entry last_doc last_val act =
     (case act of (when, field, removed, added) \<Rightarrow>
        (case get_field last_doc ''_oid'' of
           Inl e \<Rightarrow> Inl e
         | Inr oidv \<Rightarrow> Inr \<lparr>i_oid = oidv, i_field = field, i_removed = removed, i_added = added,
                           i_last_val = last_val, i_when = when\<rparr>))"

definition mark_corrupted :: "string \<Rightarrow> value \<Rightarrow> doc \<Rightarrow> doc" where
  "mark_corrupted field added d =
     d\<lparr>d_corrupted := Some (AList.update field added
                              (case d_corrupted d of None \<Rightarrow> [] | Some c \<Rightarrow> c))\<rparr>"

text \<open>
  The second half of one round of the loop, once \<open>last_doc\<close> and \<open>new_doc\<close> are chosen:
  transform the field backwards, record an inconsistency, push both versions.
\<close>

definition replay_push ::
  "doc list \<Rightarrow> doc \<Rightarrow> doc \<Rightarrow> activity \<Rightarrow> inconsistency list
   \<Rightarrow> error + doc list \<times> inconsistency list" where
  "replay_push rest last_doc new_doc act log =
     (case act of (when, field, removed, added) \<Rightarrow>
        (case get_field last_doc field of
           Inl e \<Rightarrow> Inl e
         | Inr last_val \<Rightarrow>
             (case get_field new_doc field of
                Inl e \<Rightarrow> Inl e
              | Inr cur \<Rightarrow>
                  (case activity_backwards cur removed added of
                     Inl e \<Rightarrow> Inl e
                   | Inr (new_val, inconsistent) \<Rightarrow>
                       (let new_doc1 = set_field field new_val new_doc
                        in if inconsistent
                           then (case log_entry last_doc last_val act of
                                   Inl e \<Rightarrow> Inl e
                                 | Inr entry \<Rightarrow>
                                     Inr (rest @ [last_doc, mark_corrupted field added new_doc1],
                                          log @ [entry]))
                           else Inr (rest @ [last_doc, new_doc1], log))))))"

text \<open>One round: pop the top version, group activities of the same time, or open a new version.\<close>

definition replay_step ::
  "activity \<Rightarrow> doc list \<times> inconsistency list \<Rightarrow> error + doc list \<times> inconsistency list" where
  "replay_step act st =
     (case st of (batch_updates, log) \<Rightarrow>
        if batch_updates = [] then Inl (IndexError ''pop from empty list'')
        else
          (let last_doc = last batch_updates; rest = butlast batch_updates; when = fst act
           in case get_field last_doc ''_end'' of
                Inl e \<Rightarrow> Inl e
              | Inr e \<Rightarrow>
                  if e = VOne (SInt when)
                  then (if rest = [] then Inl (IndexError ''pop from empty list'')
                        else replay_push (butlast rest) (last rest) last_doc act log)
                  else replay_push rest
                         (set_field ''_start'' (VOne (SInt when)) last_doc)
                         (set_field ''_end'' (VOne (SInt when))
                            (set_field ''_start'' (VOne (SInt when)) last_doc))
                         act log))"

fun replay_loop ::
  "activity list \<Rightarrow> doc list \<times> inconsistency list \<Rightarrow> error + doc list \<times> inconsistency list" where
  "replay_loop [] st = Inr st"
| "replay_loop (act # acts) st =
     (case replay_step act st of Inl e \<Rightarrow> Inl e | Inr st' \<Rightarrow> replay_loop acts st')"

text \<open>
  The closing block: move the start of the oldest version back to the creation time. Any
  exception inside it is logged and the versions are returned as they are.
\<close>

definition backdate :: "string option \<Rightarrow> doc list \<Rightarrow> doc list" where
  "backdate creation_field batch_updates =
     (if batch_updates = [] \<or> \<not> truthy_str creation_field then batch_updates
      else
        (let last_doc = last batch_updates
         in case (get_field last_doc (the creation_field), get_field last_doc ''_start'') of
              (Inr creation_ts, Inr start) \<Rightarrow>
                if value_key creation_ts < value_key start
                then butlast batch_updates @ [set_field ''_start'' creation_ts last_doc]
                else if length batch_updates = 1 then []
                else batch_updates
            | _ \<Rightarrow> batch_updates))"

definition activity_import_doc ::
  "config \<Rightarrow> doc \<Rightarrow> activity list \<Rightarrow> error + doc list \<times> inconsistency list" where
  "activity_import_doc cfg time_doc activities =
     (case get_field time_doc ''_start'' of
        Inl e \<Rightarrow> Inl e
      | Inr td_start \<Rightarrow>
          (let acts = filter (\<lambda>act. value_key (VOne (SInt (fst act))) < value_key td_start
                                    \<and> fst (snd act) \<in> fst ` set (d_fields time_doc)) activities;
               sorted_acts = sort_key (\<lambda>act. - fst act) acts
           in case replay_loop sorted_acts ([time_doc], []) of
                Inl e \<Rightarrow> Inl e
              | Inr (batch_updates, log) \<Rightarrow> Inr (backdate (cfg_cfield cfg) batch_updates, log)))"

text \<open>What a version says about a field, its start and its end.\<close>

definition summary :: "string \<Rightarrow> doc \<Rightarrow> value option \<times> value option \<times> value option" where
  "summary field d =
     (map_of (d_fields d) field, map_of (d_fields d) ''_start'', map_of (d_fields d) ''_end'')"

definition versions_of :: "error + doc list \<times> inconsistency list \<Rightarrow> doc list" where
  "versions_of r = (case r of Inl e \<Rightarrow> [] | Inr (vs, log) \<Rightarrow> vs)"

definition s3_current :: doc where
  "s3_current = \<lparr>d_fields = [(''_oid'', VOne (SInt 1)), (''status'', VOne (SStr ''closed'')),
                              (''_start'', VOne (SInt 1000)), (''_end'', VOne SNone)],
                  d_corrupted = None\<rparr>"

definition s3_log :: "activity list" where
  "s3_log = [(500, ''status'', VOne (SStr ''open''), VOne (SStr ''closed''))]"

text \<open>Sources and configurations used to run the definitions.\<close>

definition demo_cfg :: config where
  "demo_cfg = \<lparr>cfg_db = Some ''db'', cfg_table = Some ''t'', cfg_oid = Some ''id'',
                cfg_force = FNone, cfg_delta_new_ids = None, cfg_delta_mtime = None,
                cfg_cfield = None, cfg_retries = None\<rparr>"

definition all_rows :: "string \<Rightarrow> oid list" where
  "all_rows q = [OInt 3, OInt 1, OInt 2]"

definition no_float :: "oid \<Rightarrow> string option" where
  "no_float x = None"

definition fresh_src :: source where
  "fresh_src = \<lparr>load_sql = all_rows, last_oid = None, float_str = no_float,
                 fetched_mtime = None\<rparr>"

definition no_rows :: "string \<Rightarrow> nat \<Rightarrow> error + (string \<times> raw) list list" where
  "no_rows q n = Inr []"

section \<open>Normalizer: sample schemas\<close>

text \<open>Normalizing a row, then normalizing the result again.\<close>

definition prep_twice :: "fields \<Rightarrow> (string \<times> raw) list \<Rightarrow> error + (string \<times> value) list" where
  "prep_twice flds row =
     (case prep_row flds row of Inl e \<Rightarrow> Inl e | Inr obj \<Rightarrow> prep_row flds (as_raw obj))"

text \<open>A converter, as a cube may configure one: it adds one to a number.\<close>

definition bump :: "scalar \<Rightarrow> error + scalar" where
  "bump v = (case v of SInt i \<Rightarrow> Inr (SInt (i + 1)) | _ \<Rightarrow> Inr v)"

definition bump_fields :: fields where
  "bump_fields = [(''x'', \<lparr>f_select = None, f_sql = None, f_convert = Some bump,
                           f_container = False, f_type = Some TInt\<rparr>)]"

definition plain_fields :: fields where
  "plain_fields = [(''x'', \<lparr>f_select = None, f_sql = None, f_convert = None,
                            f_container = False, f_type = Some TInt\<rparr>),
                   (''tags'', \<lparr>f_select = None, f_sql = None, f_convert = None,
                               f_container = True, f_type = None\<rparr>)]"

definition one_row :: "(string \<times> raw) list" where
  "one_row = [(''x'', RVal (VOne (SInt 1)))]"

definition tag_row :: "(string \<times> raw) list" where
  "tag_row = [(''x'', RVal (VOne (SStr '' 12 ''))),
              (''tags'', RBuf ([CHR 34] @ ''b'' @ [CHR 10] @ ''a'' @ [CHR 34, CHR 10]))]"


section \<open>Documents and content hash (etl_api.py)\<close>

text \<open>
  Values of a stored document: \<open>None\<close>, integers, text, lists, dicts, and the
  \<open>ObjectId\<close> that the store mints for \<open>_id\<close>. A dict is an association list with
  distinct keys; floats and bools are not part of this model, so Python's \<open>==\<close> on values
  is equality.
\<close>

datatype pyval = PNone | PInt int | PStr string | PId nat | PList "pyval list"
  | PDict "(string \<times> pyval) list"

type_synonym pdoc = "(string \<times> pyval) list"

text \<open>\<open>repr\<close> of Python 2 for text, integers (\<open>long\<close> beyond 64 bits) and tuples of text.\<close>

definition hex_digit :: "nat \<Rightarrow> char" where
  "hex_digit n = ''0123456789abcdef'' ! (n mod 16)"

fun hex_nat :: "nat \<Rightarrow> nat \<Rightarrow> string" where
  "hex_nat 0 n = []"
| "hex_nat (Suc k) n = hex_nat k (n div 16) @ [hex_digit n]"

definition repr_char :: "char \<Rightarrow> char \<Rightarrow> string" where
  "repr_char quote c =
     (if c = quote \<or> c = CHR 92 then [CHR 92, c]
      else if c = CHR 9 then [CHR 92, CHR ''t'']
      else if c = CHR 10 then [CHR 92, CHR ''n'']
      else if c = CHR 13 then [CHR 92, CHR ''r'']
      else if (of_char c :: nat) < 32 \<or> 127 \<le> (of_char c :: nat)
        then [CHR 92, CHR ''x''] @ hex_nat 2 (of_char c)
      else [c])"

definition repr_str :: "string \<Rightarrow> string" where
  "repr_str s =
     (let quote = (if CHR 39 \<in> set s \<and> CHR 34 \<notin> set s then CHR 34 else CHR 39)
      in [quote] @ concat (map (repr_char quote) s) @ [quote])"

definition repr_int :: "int \<Rightarrow> string" where
  "repr_int i = str_int i @ (if i < - (2 ^ 63) \<or> 2 ^ 63 \<le> i then ''L'' else [])"

definition repr_tuple :: "string list \<Rightarrow> string" where
  "repr_tuple xs =
     (case xs of
        [x] \<Rightarrow> ''('' @ repr_str x @ '',)''
      | _ \<Rightarrow> ''('' @ join '', '' (map repr_str xs) @ '')'')"

text \<open>
  \<open>repr(frozenset(pairs))\<close>. CPython lists the elements of a frozenset in the order of its
  hash table, which the program does not fix and which may depend on the order in which the
  pairs were inserted. The listing is therefore a parameter: \<open>L ps\<close> is the order in which
  the frozenset built from the pairs \<open>ps\<close>, inserted in this order, lists them.
\<close>

type_synonym listing = "(string \<times> string) list \<Rightarrow> (string \<times> string) list"

definition repr_frozenset :: "listing \<Rightarrow> (string \<times> string) list \<Rightarrow> string" where
  "repr_frozenset L ps =
     ''frozenset(['' @ join '', '' (map (\<lambda>p. repr_tuple [fst p, snd p]) (L ps)) @ ''])''"

text \<open>
  \<open>jsonhash\<close>. \<open>H\<close> is \<open>hashlib.sha1(s).hexdigest()\<close>, \<open>L\<close> the listing of frozensets. A
  dict is hashed through the frozenset of its hashed items, a list through the sorted tuple
  of its hashed elements, anything else is its \<open>repr\<close>.
\<close>

fun jsonhash :: "(string \<Rightarrow> string) \<Rightarrow> listing \<Rightarrow> pyval \<Rightarrow> string" where
  "jsonhash H L (PDict kvs) =
     H (repr_frozenset L (map (\<lambda>kv. (repr_str (fst kv), jsonhash H L (snd kv))) kvs))"
| "jsonhash H L (PList xs) = H (repr_tuple (sort (map (jsonhash H L) xs)))"
| "jsonhash H L PNone = ''None''"
| "jsonhash H L (PInt i) = repr_int i"
| "jsonhash H L (PStr s) = repr_str s"
| "jsonhash H L (PId n) = ''ObjectId('' @ repr_str (hex_nat 24 n) @ '')''"

text \<open>
  To run the definitions a digest and a listing are needed. \<open>plain_digest\<close> stands in for
  SHA-1: it returns the digested text itself, so that two digests are equal exactly when
  the digested texts are, which is what SHA-1 is relied on for. \<open>listed\<close> stands in for the
  listing of a frozenset: the pairs in the order they arrive, each once.
\<close>

definition plain_digest :: "string \<Rightarrow> string" where
  "plain_digest s = s"

definition listed :: listing where
  "listed ps = remdups ps"

section \<open>The store (etl_api.py)\<close>

text \<open>
  A cube is a MongoDB collection: a list of documents. \<open>next_id\<close> is the source of fresh
  \<open>ObjectId\<close>s (\<open>new_oid()\<close>), \<open>etl_activity\<close> the collection that records which
  fields were updated and when.
\<close>

record state =
  store :: "pdoc list"
  next_id :: nat
  etl_activity :: "pdoc list"

definition oid_of :: "pdoc \<Rightarrow> pyval option" where
  "oid_of d = map_of d ''_oid''"

definition id_of :: "pdoc \<Rightarrow> pyval option" where
  "id_of d = map_of d ''_id''"

text \<open>The query \<open>{'_end': None}\<close> matches a document whose \<open>_end\<close> is null or missing.\<close>

definition is_live :: "pdoc \<Rightarrow> bool" where
  "is_live d = (map_of d ''_end'' = None \<or> map_of d ''_end'' = Some PNone)"

text \<open>
  \<open>find({'_oid': {'$in': keys}, '_end': None})\<close>; \<open>$in\<close> with a null among the keys also
  matches a document without \<open>_oid\<close>.
\<close>

definition oid_in :: "pyval list \<Rightarrow> pdoc \<Rightarrow> bool" where
  "oid_in keys d = (case oid_of d of None \<Rightarrow> PNone \<in> set keys | Some v \<Rightarrow> v \<in> set keys)"

definition find_live :: "pyval list \<Rightarrow> pdoc list \<Rightarrow> pdoc list" where
  "find_live keys docs = filter (\<lambda>d. oid_in keys d \<and> is_live d) docs"

text \<open>\<open>update({'_id': i}, {'$set': {'_end': e}}, upsert=True)\<close>.\<close>

fun set_end :: "pyval \<Rightarrow> pyval \<Rightarrow> pdoc list \<Rightarrow> pdoc list" where
  "set_end i e [] = [ [(''_id'', i), (''_end'', e)] ]"
| "set_end i e (d # ds) =
     (if id_of d = Some i then AList.update ''_end'' e d # ds else d # set_end i e ds)"

text \<open>\<open>save(obj)\<close> for an object with \<open>_id\<close>: replace the document of that \<open>_id\<close>, or add it.\<close>

fun save_doc :: "pdoc \<Rightarrow> pdoc list \<Rightarrow> pdoc list" where
  "save_doc obj [] = [obj]"
| "save_doc obj (d # ds) = (if id_of d = id_of obj then obj # ds else d # save_doc obj ds)"

text \<open>\<open>d.update(u)\<close> on dicts: every item of \<open>u\<close> is stored into \<open>d\<close>.\<close>

fun dict_update :: "pdoc \<Rightarrow> pdoc \<Rightarrow> pdoc" where
  "dict_update d [] = d"
| "dict_update d (kv # u) = AList.update (fst kv) (snd kv) (dict_update d u)"

section \<open>Snapshot writer (etl_api.py)\<close>

definition prep_object ::
  "(string \<Rightarrow> string) \<Rightarrow> listing \<Rightarrow> pdoc \<Rightarrow> pyval \<Rightarrow> error + pdoc" where
  "prep_object H L obj mtime =
     (if map_of obj ''_oid'' = None then Inl (ValueError ''Object must have an _oid specified.'')
      else
        (let o1 = AList.update ''_hash'' (PStr (jsonhash H L (PDict obj))) obj;
             o2 = (case map_of o1 ''_mtime'' of
                     Some m \<Rightarrow> AList.update ''_start'' m (AList.delete ''_mtime'' o1)
                   | None \<Rightarrow> o1);
             o3 = (if map_of o2 ''_start'' = None then AList.update ''_start'' mtime o2 else o2)
         in case map_of o3 ''_start'' of
              Some (PInt t) \<Rightarrow> Inr o3
            | _ \<Rightarrow> Inl (TypeError ''Expected numerical type'')))"

text \<open>\<open>docmap = dict([(doc['_oid'], doc) for doc in objects])\<close>.\<close>

fun build_docmap :: "pdoc list \<Rightarrow> (pyval \<times> pdoc) list \<Rightarrow> error + (pyval \<times> pdoc) list" where
  "build_docmap [] m = Inr m"
| "build_docmap (d # ds) m =
     (case oid_of d of
        None \<Rightarrow> Inl (KeyError ''_oid'')
      | Some v \<Rightarrow> build_docmap ds (AList.update v d m))"

text \<open>Does the new document hold an item that the stored one does not?\<close>

definition changed :: "pdoc \<Rightarrow> pdoc \<Rightarrow> bool" where
  "changed doc time_doc = list_ex (\<lambda>item. item \<notin> set time_doc) doc"

text \<open>
  One round of the loop over the live versions found. A version whose \<open>_oid\<close> has left
  \<open>docmap\<close> is skipped with a warning. The versions are those the query returned when the
  loop began; \<open>time_doc\<close> is the copy the query handed out, not the stored document.
\<close>

definition snapshot_step ::
  "pdoc \<Rightarrow> (pyval \<times> pdoc) list \<times> pdoc list \<Rightarrow> error + (pyval \<times> pdoc) list \<times> pdoc list" where
  "snapshot_step time_doc s =
     (case s of (docmap, docs) \<Rightarrow>
        (case oid_of time_doc of
           None \<Rightarrow> Inl (KeyError ''_oid'')
         | Some oidv \<Rightarrow>
             (case map_of docmap oidv of
                None \<Rightarrow> Inr (docmap, docs)
              | Some doc0 \<Rightarrow>
                  (case map_of doc0 ''_start'' of
                     None \<Rightarrow> Inl (KeyError ''_start'')
                   | Some start \<Rightarrow>
                       (let doc = AList.delete ''_start'' doc0
                        in if changed doc time_doc
                           then (case id_of time_doc of
                                   None \<Rightarrow> Inl (KeyError ''_id'')
                                 | Some i \<Rightarrow>
                                     Inr (AList.update oidv
                                            (AList.update ''_start'' start (dict_update time_doc doc))
                                            docmap,
                                          set_end i start docs))
                           else Inr (AList.delete oidv docmap, docs))))))"

fun snapshot_loop ::
  "pdoc list \<Rightarrow> (pyval \<times> pdoc) list \<times> pdoc list \<Rightarrow> error + (pyval \<times> pdoc) list \<times> pdoc list" where
  "snapshot_loop [] s = Inr s"
| "snapshot_loop (time_doc # tds) s =
     (case snapshot_step time_doc s of Inl e \<Rightarrow> Inl e | Inr s' \<Rightarrow> snapshot_loop tds s')"

text \<open>\<open>doc.update({'_id': new_oid(), '_end': None})\<close> for each document left in \<open>docmap\<close>.\<close>

fun assign_ids :: "pdoc list \<Rightarrow> nat \<Rightarrow> pdoc list \<times> nat" where
  "assign_ids [] n = ([], n)"
| "assign_ids (d # ds) n =
     (case assign_ids ds (Suc n) of
        (ds', n') \<Rightarrow> (AList.update ''_end'' PNone (AList.update ''_id'' (PId n) d) # ds', n'))"

text \<open>
  \<open>_save_and_snapshot\<close>. The two \<open>ensure_index\<close> calls change no document and are left
  out; \<open>_bulk_insert\<close> in chunks of 1000 adds the documents in order.
\<close>

definition save_and_snapshot :: "state \<Rightarrow> pdoc list \<Rightarrow> error + state" where
  "save_and_snapshot st objects =
     (case build_docmap objects [] of
        Inl e \<Rightarrow> Inl e
      | Inr docmap \<Rightarrow>
          (case snapshot_loop (find_live (map fst docmap) (store st)) (docmap, store st) of
             Inl e \<Rightarrow> Inl e
           | Inr (docmap', docs) \<Rightarrow>
               (case assign_ids (map snd docmap') (next_id st) of
                  (new_docs, n) \<Rightarrow> Inr (st\<lparr>store := docs @ new_docs, next_id := n\<rparr>))))"

text \<open>\<open>_save_no_snapshot\<close>: documents with \<open>_id\<close> are saved in place, the others inserted together.\<close>

fun no_snapshot_loop :: "pdoc list \<Rightarrow> pdoc list \<Rightarrow> state \<Rightarrow> pdoc list \<times> state" where
  "no_snapshot_loop [] batch st = (batch, st)"
| "no_snapshot_loop (obj # objs) batch st =
     (if id_of obj \<noteq> None
      then no_snapshot_loop objs batch (st\<lparr>store := save_doc obj (store st)\<rparr>)
      else no_snapshot_loop objs (batch @ [AList.update ''_id'' (PId (next_id st)) obj])
             (st\<lparr>next_id := Suc (next_id st)\<rparr>))"

definition save_no_snapshot :: "state \<Rightarrow> pdoc list \<Rightarrow> state" where
  "save_no_snapshot st objects =
     (case no_snapshot_loop objects [] st of
        (batch, st') \<Rightarrow> st'\<lparr>store := store st' @ batch\<rparr>)"

text \<open>\<open>_save_objects\<close>; \<open>k[0]\<close> raises on an empty field name.\<close>

definition has_key :: "string \<Rightarrow> pdoc \<Rightarrow> bool" where
  "has_key k d = (map_of d k \<noteq> None)"

definition save_objects_split :: "state \<Rightarrow> pdoc list \<Rightarrow> error + string list \<times> state" where
  "save_objects_split st objects =
     (let keys = remdups (concat (map (map fst) objects))
      in if [] \<in> set keys then Inl (IndexError ''string index out of range'')
         else
           (let flds = filter (\<lambda>k. hd k \<noteq> CHR ''_'') keys;
                no_snap = filter (has_key ''_end'') objects;
                st1 = (if no_snap \<noteq> [] then save_no_snapshot st no_snap else st);
                to_snap = filter (\<lambda>obj. \<not> has_key ''_end'' obj) objects
            in if to_snap \<noteq> []
               then (case save_and_snapshot st1 to_snap of
                       Inl e \<Rightarrow> Inl e | Inr st2 \<Rightarrow> Inr (flds, st2))
               else Inr (flds, st1)))"

text \<open>\<open>etl_activity_update\<close>: an upsert into the activity collection.\<close>

fun upsert_set :: "pyval \<Rightarrow> pdoc \<Rightarrow> pdoc list \<Rightarrow> pdoc list" where
  "upsert_set i u [] = [dict_update [(''_id'', i)] u]"
| "upsert_set i u (d # ds) =
     (if id_of d = Some i then dict_update d u # ds else d # upsert_set i u ds)"

definition etl_activity_update :: "string \<Rightarrow> string \<Rightarrow> string list \<Rightarrow> pyval \<Rightarrow> state \<Rightarrow> state" where
  "etl_activity_update owner cube flds mtime st =
     (let mtimes = map (\<lambda>f. (f, mtime)) (filter (\<lambda>f. \<not> (f \<noteq> [] \<and> hd f = CHR ''_'')) (remdups flds))
                   @ [(''_mtime'', mtime)]
      in st\<lparr>etl_activity := upsert_set (PStr (owner @ ''__'' @ cube)) mtimes (etl_activity st)\<rparr>)"

text \<open>
  \<open>save_objects\<close>. \<open>mtime\<close> is the time stamp passed in, \<open>now\<close> what \<open>utcnow()\<close> gives. The
  result is the list of \<open>_oid\<close>s saved and the new state.
\<close>

definition save_objects ::
  "(string \<Rightarrow> string) \<Rightarrow> listing \<Rightarrow> string option \<Rightarrow> string option \<Rightarrow> pdoc list \<Rightarrow> int option
   \<Rightarrow> int \<Rightarrow> state \<Rightarrow> error + pyval list \<times> state" where
  "save_objects H L owner cube objects mtime now st =
     (if \<not> (truthy_str owner \<and> truthy_str cube \<and> objects \<noteq> [])
      then Inl (ValueError ''owner, cube, objects required'')
      else
        (let m = PInt (case mtime of None \<Rightarrow> now | Some t \<Rightarrow> if t = 0 then now else t)
         in case map_err (\<lambda>obj. prep_object H L obj m) (filter (\<lambda>obj. obj \<noteq> []) objects) of
              Inl e \<Rightarrow> Inl e
            | Inr objs \<Rightarrow>
                (case save_objects_split st objs of
                   Inl e \<Rightarrow> Inl e
                 | Inr (flds, st1) \<Rightarrow>
                     Inr (map (\<lambda>obj. case oid_of obj of None \<Rightarrow> PNone | Some v \<Rightarrow> v) objs,
                          etl_activity_update (the owner) (the cube) flds m st1))))"

text \<open>The fields of an object whose names do not start with an underscore.\<close>

definition non_underscore :: "pdoc \<Rightarrow> pdoc" where
  "non_underscore d = filter (\<lambda>kv. \<not> (fst kv \<noteq> [] \<and> hd (fst kv) = CHR ''_'')) d"

definition empty_state :: state where
  "empty_state = \<lparr>store = [], next_id = 0, etl_activity = []\<rparr>"

definition state_of :: "error + pyval list \<times> state \<Rightarrow> state" where
  "state_of r = (case r of Inl e \<Rightarrow> empty_state | Inr (oids, st) \<Rightarrow> st)"

definition s2_first :: pdoc where
  "s2_first = [(''_oid'', PInt 9), (''x'', PInt 1), (''_start'', PInt 50)]"

definition s2_input :: pdoc where
  "s2_input = [(''_oid'', PInt 9), (''x'', PInt 1), (''_start'', PInt 75)]"

definition s2_live :: state where
  "s2_live = state_of (save_objects plain_digest listed (Some ''o'') (Some ''c'') [s2_first] None 60 empty_state)"

text \<open>The validity interval of a version.\<close>

definition span :: "pdoc \<Rightarrow> pyval option \<times> pyval option" where
  "span d = (map_of d ''_start'', map_of d ''_end'')"

definition s2_after :: state where
  "s2_after = state_of (save_objects plain_digest listed (Some ''o'') (Some ''c'') [s2_input] None 80 s2_live)"

definition doc_of :: "error + pdoc \<Rightarrow> pdoc" where
  "doc_of r = (case r of Inl e \<Rightarrow> [] | Inr d \<Rightarrow> d)"


text \<open>
  An incoming object, keyed \<open>k\<close> in \<open>docmap\<close>, that the loop finds unchanged: it has a
  \<open>_start\<close>, a live version of \<open>_oid\<close> \<open>k\<close> is stored, and every live version of that
  \<open>_oid\<close> holds each of its items other than \<open>_start\<close>.
\<close>

definition same_as_live :: "pdoc list \<Rightarrow> pyval \<times> pdoc \<Rightarrow> bool" where
  "same_as_live docs ko =
     (map_of (snd ko) ''_start'' \<noteq> None
      \<and> list_ex (\<lambda>t. is_live t \<and> oid_of t = Some (fst ko)) docs
      \<and> list_all (\<lambda>t. is_live t \<and> oid_of t = Some (fst ko)
                        \<longrightarrow> \<not> changed (AList.delete ''_start'' (snd ko)) t) docs)"

text \<open>An object saved twice without a time stamp of its own.\<close>

definition bare_obj :: pdoc where
  "bare_obj = [(''_oid'', PInt 9), (''x'', PInt 1)]"

definition bare_live :: state where
  "bare_live = state_of (save_objects plain_digest listed (Some ''o'') (Some ''c'') [bare_obj] None 60
                          empty_state)"

definition bare_again :: pdoc where
  "bare_again = doc_of (prep_object plain_digest listed bare_obj (PInt 80))"









section \<open>Snapshot writer: the loop invariant\<close>

text \<open>
  Closing the version of \<open>_id\<close> \<open>i\<close>, and what holds of \<open>docmap\<close>, the store and the live
  versions still to visit at every round of the loop of \<open>_save_and_snapshot\<close>.
\<close>

definition close_id :: "pyval \<Rightarrow> pyval \<Rightarrow> pdoc \<Rightarrow> pdoc" where
  "close_id i e d = (if id_of d = Some i then AList.update ''_end'' e d else d)"






section \<open>Oid diff: results\<close>

text \<open>
  C6. A truthy scalar \<open>force\<close> (not \<open>True\<close>, not a list) reaches the last branch of
  \<open>_delta_force\<close>, which wraps it as \<open>force = [force]\<close> and leaves \<open>oids\<close> empty: the
  function returns the empty list, not the singleton list of that scalar.
\<close>

theorem delta_force_scalar_empty:
  "truthy_oid v \<Longrightarrow> delta_force cfg src (FScalar v) = []"
  by (simp add: delta_force_def force_or_def sorted_set_def)

theorem delta_force_scalar_empty_witness:
  "truthy_oid (OInt 5) \<and>
   delta_force \<lparr>cfg_db = Some ''db'', cfg_table = Some ''t'', cfg_oid = Some ''id'',
                 cfg_force = FNone, cfg_delta_new_ids = None, cfg_delta_mtime = None,
                 cfg_cfield = None, cfg_retries = None\<rparr>
               \<lparr>load_sql = (\<lambda>q. [OInt 5]), last_oid = None, float_str = (\<lambda>x. None),
                 fetched_mtime = None\<rparr>
               (FScalar (OInt 5)) = []"
  using delta_force_scalar_empty [of "OInt 5"] by simp


text \<open>
  C9. With no previously stored \<open>_oid\<close> every oid of the source is still to be extracted,
  and the claim, like the docstring of \<open>get_new_oids\<close>, has them all returned. The code
  returns the empty list there, whatever the configuration: the query is only made under
  \<open>if last_id:\<close>.
\<close>

theorem get_new_oids_no_prior_state:
  "last_oid src = None \<Longrightarrow> get_new_oids cfg src = []"
  by (simp add: get_new_oids_def)

theorem get_new_oids_no_prior_state_witness:
  "last_oid fresh_src = None
   \<and> get_new_oids demo_cfg fresh_src = []
   \<and> sql_get_oids demo_cfg fresh_src WNone = [OInt 1, OInt 2, OInt 3]"
  using get_new_oids_no_prior_state [of fresh_src demo_cfg]
  by (simp add: fresh_src_def sql_get_oids_def all_rows_def)

section \<open>SQL builder: results\<close>

text \<open>
  C8. When \<open>db\<close>, \<open>table\<close> or \<open>_oid\<close> is missing from the configuration, SQL generation
  raises the configuration error and gives no query; \<open>_get_objects\<close> passes the error on
  before its retry loop, so the source is not queried at all.
\<close>

theorem generate_sql_missing_config:
  "cfg_db cfg = None \<or> cfg_table cfg = None \<or> cfg_oid cfg = None \<Longrightarrow>
   generate_sql cfg flds oids sort_flag = Inl (ValueError ''Must define db, table, _oid in config!'')
   \<and> get_objects cfg flds load_rows oids
       = (Inl (ValueError ''Must define db, table, _oid in config!''), 0)"
  by (auto simp add: generate_sql_def get_objects_def)

theorem generate_sql_missing_config_witness:
  "(cfg_db (demo_cfg\<lparr>cfg_table := None\<rparr>) = None
    \<or> cfg_table (demo_cfg\<lparr>cfg_table := None\<rparr>) = None
    \<or> cfg_oid (demo_cfg\<lparr>cfg_table := None\<rparr>) = None)
   \<and> generate_sql (demo_cfg\<lparr>cfg_table := None\<rparr>) [] [OInt 1] True
       = Inl (ValueError ''Must define db, table, _oid in config!'')
   \<and> get_objects (demo_cfg\<lparr>cfg_table := None\<rparr>) [] no_rows [OInt 1]
       = (Inl (ValueError ''Must define db, table, _oid in config!''), 0)"
  using generate_sql_missing_config [of "demo_cfg\<lparr>cfg_table := None\<rparr>" "[]" "[OInt 1]" True no_rows]
  by simp


section \<open>Activity replay: results\<close>

text \<open>
  C5. For the current object \<open>{_oid:1, status:"closed", _start:1000, _end:null}\<close> and the
  log \<open>[(500,"status","open","closed")]\<close> the claim expects the versions
  \<open>{status:"open", _start:500, _end:1000}\<close> and \<open>{status:"closed", _start:1000, _end:null}\<close>.
  The replay does not return these two.
\<close>

theorem replay_s3_counterexample:
  "set (map (summary ''status'') (versions_of (activity_import_doc demo_cfg s3_current s3_log)))
   \<noteq> {(Some (VOne (SStr ''open'')), Some (VOne (SInt 500)), Some (VOne (SInt 1000))),
       (Some (VOne (SStr ''closed'')), Some (VOne (SInt 1000)), Some (VOne SNone))}"
  by (simp add: activity_import_doc_def s3_current_def s3_log_def demo_cfg_def get_field_def
      replay_step_def replay_push_def set_field_def backdate_def versions_of_def summary_def
      doubleton_eq_iff)

text \<open>
  C5 (as the code has it). The replay moves the start of the current version to the time
  of the change and returns, current version first, \<open>{status:"closed", _start:500,
  _end:null}\<close> and \<open>{status:"open", _start:500, _end:500}\<close>, with no inconsistency logged.
\<close>

theorem replay_s3_versions:
  "activity_import_doc demo_cfg s3_current s3_log
   = Inr ([\<lparr>d_fields = [(''_oid'', VOne (SInt 1)), (''status'', VOne (SStr ''closed'')),
                         (''_start'', VOne (SInt 500)), (''_end'', VOne SNone)],
             d_corrupted = None\<rparr>,
           \<lparr>d_fields = [(''_oid'', VOne (SInt 1)), (''status'', VOne (SStr ''open'')),
                         (''_start'', VOne (SInt 500)), (''_end'', VOne (SInt 500))],
             d_corrupted = None\<rparr>], [])"
  by (simp add: activity_import_doc_def s3_current_def s3_log_def demo_cfg_def get_field_def
      replay_step_def replay_push_def set_field_def backdate_def)

section \<open>Normalizer: results\<close>

lemma digits10_nonempty: "digits10 n \<noteq> []"
  by (subst digits10.simps) simp

lemma str_int_nonempty: "str_int i \<noteq> []"
  by (simp add: str_int_def digits10_nonempty)

lemma type_single_idem: "type_single v ty = Inr r \<Longrightarrow> type_single r ty = Inr r"
  by (cases v; cases ty; (cases "the ty")?)
     (auto simp add: type_single_def str_int_nonempty split: if_splits sum.splits)

lemma map_err_fixed: "\<forall>y \<in> set ys. f y = Inr y \<Longrightarrow> map_err f ys = Inr ys"
  by (induction ys) auto

lemma map_err_results:
  "map_err f xs = Inr ys \<Longrightarrow> \<forall>y \<in> set ys. \<exists>x \<in> set xs. f x = Inr y"
  by (induction xs arbitrary: ys) (auto split: sum.splits)

lemma type_container_idem:
  "type_container v ty = Inr r \<Longrightarrow> type_container r ty = Inr r"
proof (cases v)
  case (VOne s)
  assume "type_container v ty = Inr r"
  with VOne show ?thesis by (cases s) auto
next
  case (VList xs)
  assume a: "type_container v ty = Inr r"
  with VList obtain ys where ys: "map_err (\<lambda>item. type_single item ty) xs = Inr ys"
    and r: "r = VList (sort_key scalar_key ys)"
    by (auto split: sum.splits)
  have "\<forall>y \<in> set ys. type_single y ty = Inr y"
    using map_err_results [OF ys] type_single_idem by blast
  then have "map_err (\<lambda>item. type_single item ty) (sort_key scalar_key ys)
             = Inr (sort_key scalar_key ys)"
    by (intro map_err_fixed) simp
  then show ?thesis using r by (simp add: sort_key_id_if_sorted)
qed

lemma convert_none: "f_convert opts = None \<Longrightarrow> convert_value opts v = Inr v"
  by (cases "(opts, v)" rule: convert_value.cases) auto

lemma prep_field_idem:
  assumes "map_of flds k = Some opts" and "f_convert opts = None"
    and "prep_field flds k rv = Inr v"
  shows "prep_field flds k (RVal v) = Inr v"
proof (cases "f_container opts")
  case True
  from assms True obtain v1 where v1: "normalize_container opts (unwrap rv) = Inr v1"
    and tc: "type_container v1 (f_type opts) = Inr v"
    by (auto simp add: prep_field_def convert_none split: sum.splits)
  from tc obtain ys where v: "v = VList ys"
    by (cases "(v1, f_type opts)" rule: type_container.cases) (auto split: sum.splits)
  from type_container_idem [OF tc] show ?thesis
    using assms(1,2) True v by (simp add: prep_field_def convert_none)
next
  case False
  from assms False obtain s r where "type_single s (f_type opts) = Inr r" and v: "v = VOne r"
    by (cases "unwrap rv") (auto simp add: prep_field_def convert_none split: sum.splits)
  from type_single_idem [OF this(1)] show ?thesis
    using assms(1,2) False v by (simp add: prep_field_def convert_none)
qed

lemma prep_row_keys:
  "prep_row flds row = Inr obj \<Longrightarrow>
   \<forall>kv \<in> set obj. \<exists>rv. prep_field flds (fst kv) rv = Inr (snd kv)"
  unfolding prep_row_def
proof (induction row arbitrary: obj)
  case Nil
  then show ?case by simp
next
  case (Cons kv row)
  from Cons.prems obtain v obj' where v: "prep_field flds (fst kv) (snd kv) = Inr v"
    and rest: "map_err (\<lambda>kv. case prep_field flds (fst kv) (snd kv) of
                                  Inl e \<Rightarrow> Inl e | Inr v \<Rightarrow> Inr (fst kv, v)) row = Inr obj'"
    and obj: "obj = (fst kv, v) # obj'"
    by (auto split: sum.splits)
  from Cons.IH [OF rest] v obj show ?case by auto
qed

text \<open>
  C7. Normalizing twice is not the same as normalizing once: a configured converter is
  applied again on the second pass. With a converter that adds one, the row \<open>{x: 1}\<close>
  becomes \<open>{x: 2}\<close> and then \<open>{x: 3}\<close>.
\<close>

theorem prep_twice_counterexample:
  "prep_row bump_fields one_row = Inr [(''x'', VOne (SInt 2))]
   \<and> prep_twice bump_fields one_row = Inr [(''x'', VOne (SInt 3))]
   \<and> prep_twice bump_fields one_row \<noteq> prep_row bump_fields one_row"
  by (simp add: prep_twice_def as_raw_def prep_row_def prep_field_def bump_fields_def
      one_row_def bump_def type_single_def)

text \<open>
  C7 (as the code has it). When no field of the schema has a converter, a row that
  normalizes to an object normalizes to the same object again: unwrap, container
  normalization and typecast leave their own results unchanged.
\<close>

theorem prep_row_idempotent:
  assumes "\<forall>opts \<in> snd ` set flds. f_convert opts = None"
    and "prep_row flds row = Inr obj"
  shows "prep_row flds (as_raw obj) = Inr obj"
proof -
  have "\<forall>kv \<in> set obj. prep_field flds (fst kv) (RVal (snd kv)) = Inr (snd kv)"
  proof
    fix kv assume "kv \<in> set obj"
    with prep_row_keys [OF assms(2)] obtain rv
      where rv: "prep_field flds (fst kv) rv = Inr (snd kv)" by blast
    then obtain opts where m: "map_of flds (fst kv) = Some opts"
      by (auto simp add: prep_field_def split: option.splits)
    then have "opts \<in> snd ` set flds" by (force dest: map_of_SomeD)
    with assms(1) have "f_convert opts = None" by auto
    from prep_field_idem [OF m this rv]
    show "prep_field flds (fst kv) (RVal (snd kv)) = Inr (snd kv)" .
  qed
  then show ?thesis
    unfolding prep_row_def as_raw_def
    by (induction obj) auto
qed

theorem prep_row_idempotent_witness:
  "prep_row plain_fields tag_row
       = Inr [(''x'', VOne (SInt 12)), (''tags'', VList [SStr ''a'', SStr ''b''])]
   \<and> prep_row plain_fields
         (as_raw [(''x'', VOne (SInt 12)), (''tags'', VList [SStr ''a'', SStr ''b''])])
       = Inr [(''x'', VOne (SInt 12)), (''tags'', VList [SStr ''a'', SStr ''b''])]"
proof -
  have c: "\<forall>opts \<in> snd ` set plain_fields. f_convert opts = None"
    by (simp add: plain_fields_def)
  have r: "prep_row plain_fields tag_row
           = Inr [(''x'', VOne (SInt 12)), (''tags'', VList [SStr ''a'', SStr ''b''])]"
    by (simp add: prep_row_def prep_field_def plain_fields_def tag_row_def type_single_def
        strip_def is_uspace_def is_space_def int_of_str_def unsigned_of_def is_digit_def
        nat_of_digits_def digit_val_def)
  from prep_row_idempotent [OF c r] r show ?thesis by simp
qed

section \<open>Content hash: results\<close>

text \<open>
  C4. The claim has a list hash as the tuple of its element hashes in list order, so that
  a reordered list hashes differently. The code sorts the element hashes first: the lists
  \<open>[2, 1]\<close> and \<open>[1, 2]\<close> have the same hash, and the hash of \<open>[2, 1]\<close> is not the digest
  of its element hashes in list order.
\<close>

theorem jsonhash_list_counterexample:
  "jsonhash plain_digest listed (PList [PInt 2, PInt 1]) = jsonhash plain_digest listed (PList [PInt 1, PInt 2])
   \<and> jsonhash plain_digest listed (PList [PInt 2, PInt 1])
       \<noteq> plain_digest (repr_tuple (map (jsonhash plain_digest listed) [PInt 2, PInt 1]))"
  by code_simp

text \<open>
  C4 (as the code has it). \<open>jsonhash\<close> is insensitive to the order of a list: lists with
  the same elements, in any order, have the same hash, the digest of the sorted tuple of the
  element hashes.
\<close>

theorem jsonhash_list_order_insensitive:
  "mset xs = mset ys \<Longrightarrow> jsonhash H L (PList xs) = jsonhash H L (PList ys)"
proof -
  assume m: "mset xs = mset ys"
  have "mset (map (jsonhash H L) xs) = image_mset (jsonhash H L) (mset xs)"
    by (rule mset_map)
  also have "\<dots> = image_mset (jsonhash H L) (mset ys)"
    by (simp only: m)
  also have "\<dots> = mset (map (jsonhash H L) ys)"
    by (rule mset_map [symmetric])
  finally have "sorted_list_of_multiset (mset (map (jsonhash H L) xs))
                = sorted_list_of_multiset (mset (map (jsonhash H L) ys))"
    by (rule arg_cong)
  then have "sort (map (jsonhash H L) xs) = sort (map (jsonhash H L) ys)"
    by (simp only: sorted_list_of_multiset_mset)
  then show "jsonhash H L (PList xs) = jsonhash H L (PList ys)"
    by (simp only: jsonhash.simps)
qed

theorem jsonhash_list_order_insensitive_witness:
  "mset [PInt 2, PInt 1] = mset [PInt 1, PInt 2]
   \<and> jsonhash plain_digest listed (PList [PInt 2, PInt 1])
       = jsonhash plain_digest listed (PList [PInt 1, PInt 2])"
proof -
  have m: "mset [PInt 2, PInt 1] = mset [PInt 1, PInt 2]"
    by (simp add: add_mset_commute)
  from jsonhash_list_order_insensitive [OF m, of plain_digest listed] m show ?thesis
    by (intro conjI)
qed

section \<open>Snapshot writer: results\<close>

text \<open>
  C3. The claim has \<open>_hash\<close> be the content hash of the non-underscore fields only. For the
  object \<open>{_oid: 9, x: 1, _start: 75}\<close> the stored \<open>_hash\<close> is not the hash of \<open>{x: 1}\<close>.
\<close>

theorem prep_object_hash_counterexample:
  "non_underscore s2_input = [(''x'', PInt 1)]
   \<and> map_of (doc_of (prep_object plain_digest listed s2_input (PInt 80))) ''_hash''
       \<noteq> Some (PStr (jsonhash plain_digest listed (PDict (non_underscore s2_input))))"
  by code_simp

text \<open>
  C3 (as the code has it). The \<open>_hash\<close> that \<open>_prep_object\<close> stores is the content hash of
  the whole object as it came in, with every field it then had: \<open>_oid\<close>, any \<open>_start\<close> or
  \<open>_mtime\<close> and any other underscore field included.
\<close>

theorem prep_object_hash_whole:
  "prep_object H L obj mtime = Inr d \<Longrightarrow>
   map_of d ''_hash'' = Some (PStr (jsonhash H L (PDict obj)))"
  by (auto simp add: prep_object_def Let_def update_conv' delete_conv'
      split: if_splits option.splits pyval.splits)

theorem prep_object_hash_whole_witness:
  "prep_object plain_digest listed s2_input (PInt 80)
     = Inr (s2_input @ [(''_hash'', PStr (jsonhash plain_digest listed (PDict s2_input)))])
   \<and> map_of (s2_input @ [(''_hash'', PStr (jsonhash plain_digest listed (PDict s2_input)))]) ''_hash''
       = Some (PStr (jsonhash plain_digest listed (PDict s2_input)))"
proof -
  have p: "prep_object plain_digest listed s2_input (PInt 80)
           = Inr (s2_input @ [(''_hash'', PStr (jsonhash plain_digest listed (PDict s2_input)))])"
    by (simp add: prep_object_def s2_input_def)
  from prep_object_hash_whole [OF p] p show ?thesis by simp
qed

text \<open>
  C10. \<open>save_objects\<close> called with an empty list of objects raises \<open>ValueError\<close>, as it
  does for a missing owner or cube; it does not return an empty list of saved ids.
\<close>

theorem save_objects_empty_list:
  "save_objects H L owner cube [] mtime now st = Inl (ValueError ''owner, cube, objects required'')"
  by (simp add: save_objects_def)

text \<open>
  C1. The live version \<open>{_oid: 9, x: 1, _start: 50}\<close> and the incoming object
  \<open>{_oid: 9, x: 1, _start: 75}\<close> agree on their non-underscore fields, and the snapshot write
  still closes the live version at 75 and inserts a new one: \<open>_hash\<close> covers \<open>_start\<close>, so the
  two hashes differ.
\<close>

theorem snapshot_s2_counterexample:
  "map non_underscore (store s2_live) = [non_underscore s2_input]
   \<and> map span (store s2_live) = [(Some (PInt 50), Some PNone)]
   \<and> map span (store s2_after) = [(Some (PInt 50), Some (PInt 75)), (Some (PInt 75), Some PNone)]"
  by code_simp


lemma snapshot_loop_noop:
  assumes "\<forall>t \<in> set tds. oid_of t \<noteq> None"
    and "\<forall>ko \<in> set dm. map_of (snd ko) ''_start'' \<noteq> None
           \<and> (\<exists>t \<in> set tds. oid_of t = Some (fst ko))
           \<and> (\<forall>t \<in> set tds. oid_of t = Some (fst ko)
                  \<longrightarrow> \<not> changed (AList.delete ''_start'' (snd ko)) t)"
  shows "snapshot_loop tds (dm, docs) = Inr ([], docs)"
  using assms
proof (induction tds arbitrary: dm)
  case Nil
  then have "dm = []" by (cases dm) auto
  then show ?case by simp
next
  case (Cons t tds)
  from Cons.prems(1) obtain k where k: "oid_of t = Some k" by auto
  show ?case
  proof (cases "map_of dm k")
    case None
    then have nk: "\<forall>ko \<in> set dm. fst ko \<noteq> k"
      by (metis domIff dom_map_of_conv_image_fst image_eqI)
    have step: "snapshot_step t (dm, docs) = Inr (dm, docs)"
      using k None by (simp add: snapshot_step_def)
    have "snapshot_loop tds (dm, docs) = Inr ([], docs)"
    proof (rule Cons.IH)
      show "\<forall>t \<in> set tds. oid_of t \<noteq> None" using Cons.prems(1) by simp
      show "\<forall>ko \<in> set dm. map_of (snd ko) ''_start'' \<noteq> None
           \<and> (\<exists>t \<in> set tds. oid_of t = Some (fst ko))
           \<and> (\<forall>t \<in> set tds. oid_of t = Some (fst ko)
                  \<longrightarrow> \<not> changed (AList.delete ''_start'' (snd ko)) t)"
        using Cons.prems(2) nk k by fastforce
    qed
    with step show ?thesis by simp
  next
    case (Some obj)
    then have mem: "(k, obj) \<in> set dm" by (rule map_of_SomeD)
    with Cons.prems(2) have st: "map_of obj ''_start'' \<noteq> None"
      and same: "\<not> changed (AList.delete ''_start'' obj) t"
      using k by fastforce+
    have step: "snapshot_step t (dm, docs) = Inr (AList.delete k dm, docs)"
      using k Some st same by (auto simp add: snapshot_step_def)
    have "snapshot_loop tds (AList.delete k dm, docs) = Inr ([], docs)"
    proof (rule Cons.IH)
      show "\<forall>t \<in> set tds. oid_of t \<noteq> None" using Cons.prems(1) by simp
      show "\<forall>ko \<in> set (AList.delete k dm). map_of (snd ko) ''_start'' \<noteq> None
           \<and> (\<exists>t \<in> set tds. oid_of t = Some (fst ko))
           \<and> (\<forall>t \<in> set tds. oid_of t = Some (fst ko)
                  \<longrightarrow> \<not> changed (AList.delete ''_start'' (snd ko)) t)"
        using Cons.prems(2) k by (fastforce simp add: AList.delete_eq)
    qed
    with step show ?thesis by simp
  qed
qed

text \<open>
  C1 (as the code has it). A snapshot write changes nothing when every object of the batch
  is found unchanged: each has a live version of its \<open>_oid\<close> in the store, and every live
  version of that \<open>_oid\<close> holds each item of the prepared object other than \<open>_start\<close>, that
  is its non-underscore fields and also \<open>_oid\<close>, \<open>_hash\<close> and any other underscore field.
  Then no version is closed, none is inserted, and the state is the one before.
\<close>

theorem snapshot_noop:
  assumes dm: "build_docmap objects [] = Inr docmap"
    and oids: "list_all (\<lambda>t. oid_of t \<noteq> None) (store st)"
    and same: "list_all (same_as_live (store st)) docmap"
  shows "save_and_snapshot st objects = Inr st"
proof -
  let ?tds = "find_live (map fst docmap) (store st)"
  have a: "\<forall>t \<in> set ?tds. oid_of t \<noteq> None"
    using oids by (auto simp add: find_live_def list_all_iff)
  have b: "\<forall>ko \<in> set docmap. map_of (snd ko) ''_start'' \<noteq> None
           \<and> (\<exists>t \<in> set ?tds. oid_of t = Some (fst ko))
           \<and> (\<forall>t \<in> set ?tds. oid_of t = Some (fst ko)
                  \<longrightarrow> \<not> changed (AList.delete ''_start'' (snd ko)) t)"
  proof
    fix ko assume ko: "ko \<in> set docmap"
    with same have s: "same_as_live (store st) ko" by (simp add: list_all_iff)
    then obtain t where t: "t \<in> set (store st)" "is_live t" "oid_of t = Some (fst ko)"
      by (auto simp add: same_as_live_def list_ex_iff)
    with ko have "t \<in> set ?tds" by (auto simp add: find_live_def oid_in_def)
    with s t show "map_of (snd ko) ''_start'' \<noteq> None
           \<and> (\<exists>t \<in> set ?tds. oid_of t = Some (fst ko))
           \<and> (\<forall>t \<in> set ?tds. oid_of t = Some (fst ko)
                  \<longrightarrow> \<not> changed (AList.delete ''_start'' (snd ko)) t)"
      by (auto simp add: same_as_live_def list_all_iff find_live_def)
  qed
  from snapshot_loop_noop [OF a b, of "store st"] dm show ?thesis
    by (simp add: save_and_snapshot_def)
qed

theorem snapshot_noop_witness:
  "build_docmap [bare_again] [] = Inr [(PInt 9, bare_again)]
   \<and> save_and_snapshot bare_live [bare_again] = Inr bare_live"
proof -
  have dm: "build_docmap [bare_again] [] = Inr [(PInt 9, bare_again)]" by code_simp
  have oids: "list_all (\<lambda>t. oid_of t \<noteq> None) (store bare_live)" by code_simp
  have same: "list_all (same_as_live (store bare_live)) [(PInt 9, bare_again)]" by code_simp
  from snapshot_noop [OF dm oids same] dm show ?thesis by simp
qed

section \<open>Snapshot writer: the invariant\<close>


lemma id_of_close [simp]: "id_of (close_id i e d) = id_of d"
  by (simp add: close_id_def id_of_def update_conv')

lemma oid_of_close [simp]: "oid_of (close_id i e d) = oid_of d"
  by (simp add: close_id_def oid_of_def update_conv')
































end
